theory Spec2Isabelle
  imports Main
begin

section \<open>Shared conventions\<close>

text \<open>
  Both source units are event-driven TypeScript. A thrown exception or a rejected promise
  is a value of type \<open>exn\<close> (the error's message); an awaited call that may reject is
  described by the outcome its collaborator produces. Instants (\<open>Date\<close> objects) are
  their millisecond count \<open>getTime()\<close>, an \<open>int\<close>: the differences the code
  computes on them are exact in a double. Strings are lists of code units.
\<close>

datatype exn = Exn string

section \<open>Live conversation aggregator: src/hooks/useChatList.ts\<close>

subsection \<open>Snippet truncation\<close>

text \<open>
  \<^verbatim>\<open>message.length > maxLength ? `${message.slice(0, maxLength)}...` : message\<close>,
  with the default \<open>maxLength = 10\<close> that every call in the hook relies on.
\<close>

definition truncateMessage :: "string \<Rightarrow> nat \<Rightarrow> string" where
  "truncateMessage message maxLength =
     (if length message > maxLength then take maxLength message @ ''...'' else message)"

definition truncateMessage_dflt :: "string \<Rightarrow> string" where
  "truncateMessage_dflt message = truncateMessage message 10"

subsection \<open>Records read from storage and previews published\<close>

text \<open>
  A preview's \<open>timestamp\<close> is either a \<open>Date\<close> or a string (the sentinel
  \<open>'Nuovo'\<close>); the comparator tests which one it holds, so both shapes are kept.
\<close>

datatype timestamp = Instant int | Label string

text \<open>
  The avatar of a preview is either a stored URL or the ui-avatars URL generated from a
  name (\<open>encodeURIComponent\<close> of the name between two fixed pieces of text); the
  second is kept as the name it is keyed by.
\<close>

datatype photo = StoredPhoto string | GeneratedAvatar string

text \<open>
  \<open>chatDoc.id\<close> and the fields of \<open>chatDoc.data()\<close> that the hook reads. An optional
  field is an \<open>option\<close>; \<open>unreadCount\<close> is the per-user table, empty when the record
  has none.
\<close>

record chatDoc =
  d_id :: string
  d_isGroup :: bool
  d_name :: string
  d_lastMessage :: "string option"
  d_lastMessageTime :: "int option"
  d_unreadCount :: "(string \<times> nat) list"
  d_participants :: "string list"
  d_lastInteraction :: "int option"

record userData =
  u_displayName :: "string option"
  u_photoURL :: "string option"
  u_status :: "string option"
  u_lastSeen :: "int option"
  u_isAnonymous :: "bool option"

text \<open>
  \<open>ChatPreview\<close> as the hook fills it. A one-to-one preview is built without
  \<open>participants\<close> and without \<open>lastInteraction\<close> (both \<open>undefined\<close>, here
  \<open>None\<close>); a group preview without presence fields.
\<close>

record ChatPreview =
  p_id :: string
  p_name :: string
  p_lastMessage :: string
  p_timestamp :: timestamp
  p_unread :: nat
  p_photoURL :: photo
  p_isGroup :: bool
  p_participants :: "string list option"
  p_lastInteraction :: "int option"
  p_status :: "string option"
  p_lastSeen :: "int option"
  p_isAnonymous :: "bool option"

text \<open>The point lookup \<open>getDoc(doc(db, 'users', id))\<close> followed by \<open>.data()\<close>.\<close>

datatype lookup = Rejects exn | Absent | Found userData

text \<open>JavaScript's \<open>x || d\<close> on an optional string: the empty string is falsy too.\<close>

definition or_else :: "string option \<Rightarrow> string \<Rightarrow> string" where
  "or_else x d = (case x of None \<Rightarrow> d | Some s \<Rightarrow> if s = [] then d else s)"

definition snippet :: "string option \<Rightarrow> string" where
  "snippet m = (case m of None \<Rightarrow> [] | Some s \<Rightarrow> if s = [] then [] else truncateMessage_dflt s)"

definition stamp :: "int option \<Rightarrow> timestamp" where
  "stamp t = (case t of None \<Rightarrow> Label ''Nuovo'' | Some i \<Rightarrow> Instant i)"

definition unreadFor :: "string \<Rightarrow> (string \<times> nat) list \<Rightarrow> nat" where
  "unreadFor uid tbl = (case map_of tbl uid of None \<Rightarrow> 0 | Some n \<Rightarrow> n)"

definition groupPreview :: "string \<Rightarrow> chatDoc \<Rightarrow> ChatPreview" where
  "groupPreview uid chat =
     \<lparr> p_id = d_id chat,
       p_name = d_name chat,
       p_lastMessage = snippet (d_lastMessage chat),
       p_timestamp = stamp (d_lastMessageTime chat),
       p_unread = unreadFor uid (d_unreadCount chat),
       p_photoURL = GeneratedAvatar (d_name chat),
       p_isGroup = True,
       p_participants = Some (d_participants chat),
       p_lastInteraction = d_lastInteraction chat,
       p_status = None,
       p_lastSeen = None,
       p_isAnonymous = None \<rparr>"

definition directPreview :: "string \<Rightarrow> chatDoc \<Rightarrow> userData \<Rightarrow> ChatPreview" where
  "directPreview uid chat user =
     \<lparr> p_id = d_id chat,
       p_name = or_else (u_displayName user) ''Utente'',
       p_lastMessage = snippet (d_lastMessage chat),
       p_timestamp = stamp (d_lastMessageTime chat),
       p_unread = unreadFor uid (d_unreadCount chat),
       p_photoURL = (case u_photoURL user of
                       None \<Rightarrow> GeneratedAvatar (or_else (u_displayName user) ''U'')
                     | Some url \<Rightarrow> if url = []
                                   then GeneratedAvatar (or_else (u_displayName user) ''U'')
                                   else StoredPhoto url),
       p_isGroup = False,
       p_participants = None,
       p_lastInteraction = None,
       p_status = Some (or_else (u_status user) ''offline''),
       p_lastSeen = u_lastSeen user,
       p_isAnonymous = Some (case u_isAnonymous user of None \<Rightarrow> False | Some b \<Rightarrow> b) \<rparr>"

subsection \<open>The rebuild loop\<close>

text \<open>
  \<open>for (const chatDoc of snapshot.docs)\<close>: a group is pushed at once; for a one-to-one
  record the first participant different from the current user is searched, and the
  record is pushed only when that identifier is truthy (found and not the empty string)
  and the lookup returns profile data. A lookup that rejects ends the loop with the error.
\<close>

fun collect ::
  "string \<Rightarrow> (string \<Rightarrow> lookup) \<Rightarrow> ChatPreview list \<Rightarrow> chatDoc list \<Rightarrow> exn + ChatPreview list"
where
  "collect uid getDoc chatsList [] = Inr chatsList"
| "collect uid getDoc chatsList (chat # rest) =
     (if d_isGroup chat then collect uid getDoc (chatsList @ [groupPreview uid chat]) rest
      else (case find (\<lambda>i. i \<noteq> uid) (d_participants chat) of
              None \<Rightarrow> collect uid getDoc chatsList rest
            | Some otherParticipantId \<Rightarrow>
                if otherParticipantId = [] then collect uid getDoc chatsList rest
                else (case getDoc otherParticipantId of
                        Rejects e \<Rightarrow> Inl e
                      | Absent \<Rightarrow> collect uid getDoc chatsList rest
                      | Found user \<Rightarrow>
                          collect uid getDoc (chatsList @ [directPreview uid chat user]) rest)))"

subsection \<open>The comparator and the sort\<close>

text \<open>
  \<open>a.lastInteraction || (typeof a.timestamp === 'string' ? new Date(0) : a.timestamp)\<close>:
  the value the comparator calls \<open>timeA\<close>, with its shape (\<open>Date\<close> or string).
\<close>

definition sortTime :: "ChatPreview \<Rightarrow> timestamp" where
  "sortTime a =
     (case p_lastInteraction a of
        Some d \<Rightarrow> Instant d
      | None \<Rightarrow> (case p_timestamp a of Label s \<Rightarrow> Instant 0 | Instant t \<Rightarrow> Instant t))"

definition compareChats :: "ChatPreview \<Rightarrow> ChatPreview \<Rightarrow> int" where
  "compareChats a b =
     (case (sortTime a, sortTime b) of
        (Instant timeA, Instant timeB) \<Rightarrow> timeB - timeA
      | _ \<Rightarrow> if p_timestamp a = Label ''Nuovo'' then - 1
             else if p_timestamp b = Label ''Nuovo'' then 1
             else 0)"

text \<open>
  \<open>Array.prototype.sort\<close> is a stable sort (ECMAScript 2019): an element goes before
  the first later element it does not compare greater than. It is written here as a
  stable insertion sort driven by the comparator's sign.
\<close>

fun insert_by :: "('a \<Rightarrow> 'a \<Rightarrow> int) \<Rightarrow> 'a \<Rightarrow> 'a list \<Rightarrow> 'a list" where
  "insert_by cmp x [] = [x]"
| "insert_by cmp x (y # ys) = (if cmp x y \<le> 0 then x # y # ys else y # insert_by cmp x ys)"

definition sort_by :: "('a \<Rightarrow> 'a \<Rightarrow> int) \<Rightarrow> 'a list \<Rightarrow> 'a list" where
  "sort_by cmp xs = foldr (insert_by cmp) xs []"

definition processSnapshot ::
  "string \<Rightarrow> (string \<Rightarrow> lookup) \<Rightarrow> chatDoc list \<Rightarrow> exn + ChatPreview list" where
  "processSnapshot uid getDoc docs =
     (case collect uid getDoc [] docs of
        Inl e \<Rightarrow> Inl e
      | Inr chatsList \<Rightarrow> Inr (sort_by compareChats chatsList))"

subsection \<open>What the hook publishes\<close>

record hookState =
  chats :: "ChatPreview list"
  loading :: bool
  error :: "string option"

definition initialHook :: hookState where
  "initialHook = \<lparr> chats = [], loading = True, error = None \<rparr>"

text \<open>
  The \<open>next\<close> callback: the list and a cleared error are published only after the
  whole pass and the sort have succeeded; the \<open>catch\<close> sets the error alone and the
  \<open>finally\<close> clears the loading flag on both paths.
\<close>

definition onNext :: "string \<Rightarrow> (string \<Rightarrow> lookup) \<Rightarrow> chatDoc list \<Rightarrow> hookState \<Rightarrow> hookState" where
  "onNext uid getDoc docs s =
     (case processSnapshot uid getDoc docs of
        Inr chatsList \<Rightarrow> s\<lparr> chats := chatsList, error := None, loading := False \<rparr>
      | Inl e \<Rightarrow> s\<lparr> error := Some ''Errore nel caricamento delle chat'', loading := False \<rparr>)"

definition onError :: "hookState \<Rightarrow> hookState" where
  "onError s = s\<lparr> error := Some ''Errore nella sincronizzazione delle chat'', loading := False \<rparr>"

section \<open>Notification dispatcher: src/services/NotificationService.ts\<close>

subsection \<open>Preferences\<close>

record NotificationPreferences =
  sound :: bool
  vibration :: bool
  background :: bool
  preview :: bool
  messageSound :: string
  callSound :: string

definition DEFAULT_SETTINGS :: NotificationPreferences where
  "DEFAULT_SETTINGS =
     \<lparr> sound = True, vibration = True, background = True, preview = True,
       messageSound = ''/sounds/message.mp3'', callSound = ''/sounds/call.mp3'' \<rparr>"

text \<open>
  \<open>Partial<NotificationPreferences>\<close>: an object carrying any subset of the keys. A key
  the object mentions is \<open>Some\<close> of its value. The same shape describes the JSON blob
  kept in \<open>localStorage\<close> under \<open>'notificationSettings'\<close>.
\<close>

record PartialPreferences =
  upd_sound :: "bool option"
  upd_vibration :: "bool option"
  upd_background :: "bool option"
  upd_preview :: "bool option"
  upd_messageSound :: "string option"
  upd_callSound :: "string option"

text \<open>The object spread \<open>{ ...base, ...upd }\<close>.\<close>

definition spread :: "NotificationPreferences \<Rightarrow> PartialPreferences \<Rightarrow> NotificationPreferences" where
  "spread base upd =
     \<lparr> sound = (case upd_sound upd of None \<Rightarrow> sound base | Some v \<Rightarrow> v),
       vibration = (case upd_vibration upd of None \<Rightarrow> vibration base | Some v \<Rightarrow> v),
       background = (case upd_background upd of None \<Rightarrow> background base | Some v \<Rightarrow> v),
       preview = (case upd_preview upd of None \<Rightarrow> preview base | Some v \<Rightarrow> v),
       messageSound = (case upd_messageSound upd of None \<Rightarrow> messageSound base | Some v \<Rightarrow> v),
       callSound = (case upd_callSound upd of None \<Rightarrow> callSound base | Some v \<Rightarrow> v) \<rparr>"

text \<open>\<open>JSON.stringify\<close> of a fully populated preferences object: every key is written.\<close>

definition stringify :: "NotificationPreferences \<Rightarrow> PartialPreferences" where
  "stringify p =
     \<lparr> upd_sound = Some (sound p), upd_vibration = Some (vibration p),
       upd_background = Some (background p), upd_preview = Some (preview p),
       upd_messageSound = Some (messageSound p), upd_callSound = Some (callSound p) \<rparr>"

subsection \<open>The service instance\<close>

text \<open>
  The fields of the singleton, the \<open>src\<close> of its two audio elements, whether
  \<open>this.messaging\<close> has been assigned, and the \<open>localStorage\<close> entry it owns.
\<close>

record service =
  initialized :: bool
  hasPermission :: bool
  settings :: NotificationPreferences
  messageSound_src :: string
  callSound_src :: string
  messaging :: bool
  stored :: "PartialPreferences option"

definition loadSettings :: "PartialPreferences option \<Rightarrow> NotificationPreferences" where
  "loadSettings savedSettings =
     (case savedSettings of None \<Rightarrow> DEFAULT_SETTINGS | Some saved \<Rightarrow> spread DEFAULT_SETTINGS saved)"

text \<open>The private constructor, run once by \<open>getInstance\<close>.\<close>

definition construct :: "PartialPreferences option \<Rightarrow> service" where
  "construct savedSettings =
     \<lparr> initialized = False, hasPermission = False,
       settings = loadSettings savedSettings,
       messageSound_src = messageSound (loadSettings savedSettings),
       callSound_src = callSound (loadSettings savedSettings),
       messaging = False,
       stored = savedSettings \<rparr>"

text \<open>
  \<open>saveSettings\<close>: merge, persist the merged object, and re-point an audio element when
  the update carries a truthy (non-empty) asset reference for it.
\<close>

definition saveSettings :: "PartialPreferences \<Rightarrow> service \<Rightarrow> service" where
  "saveSettings upd s =
     s\<lparr> settings := spread (settings s) upd,
        stored := Some (stringify (spread (settings s) upd)),
        messageSound_src :=
          (case upd_messageSound upd of
             None \<Rightarrow> messageSound_src s
           | Some v \<Rightarrow> if v = [] then messageSound_src s else v),
        callSound_src :=
          (case upd_callSound upd of
             None \<Rightarrow> callSound_src s
           | Some v \<Rightarrow> if v = [] then callSound_src s else v) \<rparr>"

definition getSettings :: "service \<Rightarrow> NotificationPreferences" where
  "getSettings s = settings s"

subsection \<open>Effects and their outcomes\<close>

datatype cue = MessageCue | CallCue

record LocalNotification =
  ln_title :: string
  ln_body :: string
  ln_id :: int
  ln_sound :: "string option"
  ln_actionTypeId :: string
  ln_extra :: "(string \<times> string) list option"

text \<open>
  The detail of the \<open>'showNotification'\<close> custom event; the action's handler is kept as
  the location it navigates to.
\<close>

record UiEvent =
  ev_type :: string
  ev_title :: string
  ev_message :: string
  ev_action_label :: string
  ev_action_target :: string

text \<open>
  Every call the service makes on a collaborator, in the order it makes them. An
  attempted call is recorded whether or not the collaborator then fails.
\<close>

datatype effect =
    PlaySound cue string
  | HapticImpact
  | ScheduleLocal LocalNotification
  | SystemNotification string string
  | DispatchUi UiEvent
  | ConsoleError string exn
  | RequestPermission
  | GetMessaging
  | GetToken
  | OnMessage
  | CheckPermissions
  | RequestPermissions
  | Register
  | AddListener

text \<open>
  What an async method did and how it settled: the calls it made, and \<open>Some e\<close> when
  its promise rejects with \<open>e\<close>.
\<close>

type_synonym outcome = "effect list \<times> exn option"

definition no_effect :: outcome where
  "no_effect = ([], None)"

text \<open>\<open>await\<close> of a collaborator's call that settles as given.\<close>

definition attempt :: "effect \<Rightarrow> exn option \<Rightarrow> outcome" where
  "attempt eff result = ([eff], result)"

text \<open>Sequential statements: the second runs only when the first did not throw.\<close>

definition and_then :: "outcome \<Rightarrow> outcome \<Rightarrow> outcome" where
  "and_then a b = (case snd a of Some e \<Rightarrow> a | None \<Rightarrow> (fst a @ fst b, snd b))"

text \<open>\<open>try { a } catch (error) { console.error(msg, error) }\<close>.\<close>

definition try_catch :: "outcome \<Rightarrow> string \<Rightarrow> outcome" where
  "try_catch a msg = (case snd a of None \<Rightarrow> a | Some e \<Rightarrow> (fst a @ [ConsoleError msg e], None))"

text \<open>
  The surroundings of one handler call: the platform, the document's visibility, the
  clock, and how each collaborator settles when called.
\<close>

record env =
  isMobile :: bool
  document_hidden :: bool
  now :: int
  play_result :: "exn option"
  haptics_result :: "exn option"
  schedule_result :: "exn option"
  notification_result :: "exn option"

subsection \<open>Inbound events\<close>

text \<open>
  A web push payload (\<open>data\<close> and \<open>notification\<close> are optional, as are \<open>title\<close> and
  \<open>body\<close> inside the latter) and a mobile push notification.
\<close>

record MessagePayload =
  msg_data :: "(string \<times> string) list option"
  msg_notification :: "(string option \<times> string option) option"

record MobileNotification =
  mn_foreground :: bool
  mn_data :: "(string \<times> string) list option"
  mn_title :: "string option"
  mn_body :: "string option"

text \<open>\<open>x.data?.type\<close>.\<close>

definition data_type :: "(string \<times> string) list option \<Rightarrow> string option" where
  "data_type d = (case d of None \<Rightarrow> None | Some kv \<Rightarrow> map_of kv ''type'')"

subsection \<open>The handlers\<close>

definition playNotificationSound :: "env \<Rightarrow> service \<Rightarrow> bool \<Rightarrow> outcome" where
  "playNotificationSound e s isCall =
     try_catch
       (if isCall then attempt (PlaySound CallCue (callSound_src s)) (play_result e)
        else attempt (PlaySound MessageCue (messageSound_src s)) (play_result e))
       ''Error playing notification sound:''"

definition handleNotification :: "env \<Rightarrow> service \<Rightarrow> MessagePayload \<Rightarrow> outcome" where
  "handleNotification e s payload =
     (if \<not> background (settings s) \<and> document_hidden e then no_effect
      else
        and_then
          (if sound (settings s)
           then playNotificationSound e s (data_type (msg_data payload) = Some ''call'')
           else no_effect)
       (and_then
          (if vibration (settings s) \<and> isMobile e
           then attempt HapticImpact (haptics_result e)
           else no_effect)
          (if preview (settings s) \<and> hasPermission s
           then (case (case msg_notification payload of None \<Rightarrow> (None, None) | Some n \<Rightarrow> n) of
                   (title, body) \<Rightarrow>
                     if \<not> document_hidden e
                     then attempt
                            (ScheduleLocal
                               \<lparr> ln_title = or_else title ''Nuovo messaggio'',
                                 ln_body = or_else body [],
                                 ln_id = now e,
                                 ln_sound = (if sound (settings s) then Some ''notification.wav'' else None),
                                 ln_actionTypeId = [],
                                 ln_extra = None \<rparr>)
                            (schedule_result e)
                     else attempt
                            (SystemNotification (or_else title ''Nuovo messaggio'') (or_else body []))
                            (notification_result e))
           else no_effect)))"

definition handleMobileNotification :: "env \<Rightarrow> service \<Rightarrow> MobileNotification \<Rightarrow> outcome" where
  "handleMobileNotification e s notification =
     (if \<not> background (settings s) \<and> \<not> mn_foreground notification then no_effect
      else
        and_then
          (if sound (settings s)
           then playNotificationSound e s (data_type (mn_data notification) = Some ''call'')
           else no_effect)
       (and_then
          (if vibration (settings s)
           then attempt HapticImpact (haptics_result e)
           else no_effect)
          (if preview (settings s)
           then attempt
                  (ScheduleLocal
                     \<lparr> ln_title = or_else (mn_title notification) ''Nuovo messaggio'',
                       ln_body = or_else (mn_body notification) [],
                       ln_id = now e,
                       ln_sound = (if sound (settings s) then Some ''notification.wav'' else None),
                       ln_actionTypeId = [],
                       ln_extra = mn_data notification \<rparr>)
                  (schedule_result e)
           else no_effect)))"

subsection \<open>Service-match notifications\<close>

text \<open>The fields of a \<open>ServiceMatch\<close> that the method reads.\<close>

record ServiceMatch =
  match_id :: string
  service1_id :: string
  service1_name :: string
  service2_id :: string

definition match_title :: string where
  "match_title = ''Nuovo Match Servizio''"

definition match_body :: "ServiceMatch \<Rightarrow> string" where
  "match_body m = ''Il tuo servizio \"'' @ service1_name m @ ''\" ha un potenziale match!''"

definition match_event :: "ServiceMatch \<Rightarrow> UiEvent" where
  "match_event m =
     \<lparr> ev_type = ''info'', ev_title = match_title, ev_message = match_body m,
       ev_action_label = ''Visualizza'',
       ev_action_target = ''/services/matches/'' @ match_id m \<rparr>"

definition sendServiceMatchNotification :: "env \<Rightarrow> service \<Rightarrow> ServiceMatch \<Rightarrow> outcome" where
  "sendServiceMatchNotification e s m =
     try_catch
       (and_then
          (if preview (settings s) \<and> hasPermission s
           then attempt
                  (ScheduleLocal
                     \<lparr> ln_title = match_title,
                       ln_body = match_body m,
                       ln_id = now e,
                       ln_sound = (if sound (settings s) then Some ''notification.wav'' else None),
                       ln_actionTypeId = ''service_match'',
                       ln_extra = Some [(''type'', ''service_match''), (''matchId'', match_id m),
                                        (''service1Id'', service1_id m), (''service2Id'', service2_id m)] \<rparr>)
                  (schedule_result e)
           else no_effect)
          (attempt (DispatchUi (match_event m)) None))
       ''Error sending service match notification:''"

subsection \<open>Initialisation\<close>

text \<open>
  How the platform answers during one call of \<open>initialize\<close>: the capability probe, and
  for each awaited step either its value or the error it rejects with. A permission
  answer is the string the platform returns (\<open>'granted'\<close>, \<open>'denied'\<close>, ...).
\<close>

record platform =
  su_mobile :: bool
  su_notification_supported :: bool
  su_requestPermission :: "exn + string"
  su_getMessaging :: "exn option"
  su_getToken :: "exn option"
  su_onMessage :: "exn option"
  su_checkPermissions :: "exn + string"
  su_requestPermissions :: "exn + string"
  su_register :: "exn option"
  su_addListener :: "exn option"







subsection \<open>Histories of calls on the instance\<close>

text \<open>
  The methods that can be called on the singleton during its life, each with the
  surroundings of that call, and the state of the instance after a history of calls.
  Handlers and \<open>sendServiceMatchNotification\<close> read the instance without assigning
  any of its fields.
\<close>

datatype call =
    Initialize platform
  | SaveSettings PartialPreferences
  | HandleNotification env MessagePayload
  | HandleMobileNotification env MobileNotification
  | SendServiceMatchNotification env ServiceMatch



definition saveAll :: "PartialPreferences list \<Rightarrow> service \<Rightarrow> service" where
  "saveAll upds s = foldl (\<lambda>t upd. saveSettings upd t) s upds"

section \<open>Notions used to state the properties\<close>

text \<open>
  The counterpart identifier of a one-to-one record as the loop accepts it, and the
  profile the pass resolves for it: none when there is no such identifier or the lookup
  returns no data.
\<close>

definition counterpart :: "string \<Rightarrow> chatDoc \<Rightarrow> string option" where
  "counterpart uid chat =
     (case find (\<lambda>i. i \<noteq> uid) (d_participants chat) of
        None \<Rightarrow> None
      | Some other \<Rightarrow> if other = [] then None else Some other)"

definition resolvedProfile :: "string \<Rightarrow> (string \<Rightarrow> lookup) \<Rightarrow> chatDoc \<Rightarrow> userData option" where
  "resolvedProfile uid getDoc chat =
     (case counterpart uid chat of
        None \<Rightarrow> None
      | Some other \<Rightarrow> (case getDoc other of Found user \<Rightarrow> Some user | _ \<Rightarrow> None))"

definition previewOf :: "string \<Rightarrow> (string \<Rightarrow> lookup) \<Rightarrow> chatDoc \<Rightarrow> ChatPreview option" where
  "previewOf uid getDoc chat =
     (if d_isGroup chat then Some (groupPreview uid chat)
      else map_option (directPreview uid chat) (resolvedProfile uid getDoc chat))"

text \<open>The key a preview is ordered by: the instant of \<open>sortTime\<close>.\<close>

definition sortKey :: "ChatPreview \<Rightarrow> int" where
  "sortKey a = (case sortTime a of Instant t \<Rightarrow> t | Label s \<Rightarrow> 0)"

text \<open>
  The value a key has after a sequence of partial updates, in the words of the
  specification: the value of the most recent update that mentions the key, and the
  prior value when no update mentions it.
\<close>

definition latest :: "('u \<Rightarrow> 'a option) \<Rightarrow> 'a \<Rightarrow> 'u list \<Rightarrow> 'a" where
  "latest key prior upds =
     (case List.map_filter key upds of [] \<Rightarrow> prior | v # vs \<Rightarrow> last (v # vs))"

text \<open>The sound cues a handler asked to play, in order.\<close>

fun played :: "effect list \<Rightarrow> (cue \<times> string) list" where
  "played [] = []"
| "played (PlaySound c src # es) = (c, src) # played es"
| "played (other # es) = played es"


text \<open>The local notification that \<open>sendServiceMatchNotification\<close> schedules.\<close>

definition match_local :: "env \<Rightarrow> service \<Rightarrow> ServiceMatch \<Rightarrow> LocalNotification" where
  "match_local e s m =
     \<lparr> ln_title = match_title, ln_body = match_body m, ln_id = now e,
       ln_sound = (if sound (settings s) then Some ''notification.wav'' else None),
       ln_actionTypeId = ''service_match'',
       ln_extra = Some [(''type'', ''service_match''), (''matchId'', match_id m),
                        (''service1Id'', service1_id m), (''service2Id'', service2_id m)] \<rparr>"








subsection \<open>Concrete inputs\<close>

definition chatA :: chatDoc where
  "chatA = \<lparr> d_id = ''A'', d_isGroup = True, d_name = ''Team'', d_lastMessage = Some ''hi'',
     d_lastMessageTime = Some 1000, d_unreadCount = [], d_participants = [''me'', ''x''],
     d_lastInteraction = Some 1000 \<rparr>"

definition chatB :: chatDoc where
  "chatB = \<lparr> d_id = ''B'', d_isGroup = True, d_name = ''Club'', d_lastMessage = Some ''yo'',
     d_lastMessageTime = Some 2000, d_unreadCount = [], d_participants = [''me'', ''y''],
     d_lastInteraction = Some 2000 \<rparr>"

definition chatC :: chatDoc where
  "chatC = \<lparr> d_id = ''C'', d_isGroup = True, d_name = ''Fresh'', d_lastMessage = None,
     d_lastMessageTime = None, d_unreadCount = [], d_participants = [''me'', ''z''],
     d_lastInteraction = None \<rparr>"

definition chatD :: chatDoc where
  "chatD = \<lparr> d_id = ''D'', d_isGroup = False, d_name = [], d_lastMessage = Some ''Hello there all'',
     d_lastMessageTime = Some 3000, d_unreadCount = [(''me'', 2)], d_participants = [''me'', ''bob''],
     d_lastInteraction = None \<rparr>"

definition bob :: userData where
  "bob = \<lparr> u_displayName = Some ''Bob'', u_photoURL = None, u_status = Some ''online'',
     u_lastSeen = None, u_isAnonymous = None \<rparr>"

definition bobKnown :: "string \<Rightarrow> lookup" where
  "bobKnown i = (if i = ''bob'' then Found bob else Absent)"

definition allOn :: service where
  "allOn = (construct None)\<lparr> hasPermission := True \<rparr>"

definition quiet :: env where
  "quiet = \<lparr> isMobile = True, document_hidden = False, now = 42, play_result = None,
     haptics_result = None, schedule_result = None, notification_result = None \<rparr>"

definition textPush :: MobileNotification where
  "textPush = \<lparr> mn_foreground = True, mn_data = Some [(''type'', ''message'')],
     mn_title = Some ''Bob'', mn_body = Some ''hi'' \<rparr>"

definition webPush :: MessagePayload where
  "webPush = \<lparr> msg_data = Some [(''type'', ''call'')],
     msg_notification = Some (Some ''Bob'', None) \<rparr>"

definition someMatch :: ServiceMatch where
  "someMatch = \<lparr> match_id = ''m1'', service1_id = ''s1'', service1_name = ''Taxi'',
     service2_id = ''s2'' \<rparr>"


definition offline :: "string \<Rightarrow> lookup" where
  "offline i = Rejects (Exn ''unavailable'')"

definition backgroundOff :: service where
  "backgroundOff = allOn\<lparr> settings := (settings allOn)\<lparr> background := False \<rparr> \<rparr>"

definition hapticsBroken :: env where
  "hapticsBroken = quiet\<lparr> haptics_result := Some (Exn ''haptics unavailable'') \<rparr>"

definition schedulerBroken :: env where
  "schedulerBroken = quiet\<lparr> schedule_result := Some (Exn ''scheduler down'') \<rparr>"




section \<open>Properties of the aggregator\<close>

subsection \<open>The rebuild loop\<close>

lemma previewOf_step:
  "previewOf uid getDoc chat =
     (if d_isGroup chat then Some (groupPreview uid chat)
      else (case find (\<lambda>i. i \<noteq> uid) (d_participants chat) of
              None \<Rightarrow> None
            | Some other \<Rightarrow>
                if other = [] then None
                else (case getDoc other of
                        Found user \<Rightarrow> Some (directPreview uid chat user)
                      | _ \<Rightarrow> None)))"
  by (simp add: previewOf_def resolvedProfile_def counterpart_def
           split: option.splits lookup.splits)

lemma collect_Inr:
  "collect uid getDoc acc docs = Inr L \<Longrightarrow> L = acc @ List.map_filter (previewOf uid getDoc) docs"
proof (induction docs arbitrary: acc)
  case Nil
  then show ?case by simp
next
  case (Cons chat rest)
  from Cons.prems show ?case
    by (auto simp: previewOf_step split: if_splits option.splits lookup.splits dest!: Cons.IH)
qed

lemma collect_total:
  "(\<And>i err. getDoc i \<noteq> Rejects err) \<Longrightarrow> \<exists>L. collect uid getDoc acc docs = Inr L"
proof (induction docs arbitrary: acc)
  case Nil
  then show ?case by simp
next
  case (Cons chat rest)
  then show ?case
    by (auto split: option.splits lookup.splits)
qed

lemma processSnapshot_total:
  "(\<And>i err. getDoc i \<noteq> Rejects err) \<Longrightarrow> \<exists>L. processSnapshot uid getDoc docs = Inr L"
  using collect_total [of getDoc uid "[]" docs] by (auto simp: processSnapshot_def)

lemma set_insert_by: "set (insert_by cmp x xs) = insert x (set xs)"
  by (induction xs) auto

lemma set_sort_by: "set (sort_by cmp xs) = set xs"
  by (induction xs) (auto simp: sort_by_def set_insert_by)

lemma set_map_filter: "set (List.map_filter f xs) = {y. \<exists>x \<in> set xs. f x = Some y}"
  by (induction xs) (auto split: option.splits)

lemma previewOf_id: "previewOf uid getDoc chat = Some p \<Longrightarrow> p_id p = d_id chat"
  by (auto simp: previewOf_def groupPreview_def directPreview_def split: if_splits)

lemma processSnapshot_set:
  "processSnapshot uid getDoc docs = Inr L \<Longrightarrow>
   set L = {p. \<exists>c \<in> set docs. previewOf uid getDoc c = Some p}"
  by (auto simp: processSnapshot_def set_sort_by set_map_filter split: sum.splits dest!: collect_Inr)

lemma onNext_published:
  "processSnapshot uid getDoc docs = Inr L \<Longrightarrow> chats (onNext uid getDoc docs s) = L"
  by (simp add: onNext_def)

subsection \<open>Sort\<close>

lemma compareChats_eq: "compareChats a b = sortKey b - sortKey a"
  by (auto simp: compareChats_def sortKey_def sortTime_def split: option.splits timestamp.splits)

lemma sentinel_compares_greater:
  "p_lastInteraction c = None \<Longrightarrow> p_timestamp c = Label l \<Longrightarrow> 0 < sortKey a \<Longrightarrow>
   0 < compareChats c a \<and> compareChats a c < 0"
  by (simp add: compareChats_eq) (simp add: sortKey_def sortTime_def)

lemma sorted_insert_by:
  "sorted_wrt (\<lambda>a b. sortKey b \<le> sortKey a) xs \<Longrightarrow>
   sorted_wrt (\<lambda>a b. sortKey b \<le> sortKey a) (insert_by compareChats x xs)"
  by (induction xs) (auto simp: set_insert_by compareChats_eq)

lemma sorted_sort_by:
  "sorted_wrt (\<lambda>a b. sortKey b \<le> sortKey a) (sort_by compareChats xs)"
  by (induction xs) (auto simp: sort_by_def sorted_insert_by)

text \<open>
  C1. The claim: a conversation carrying the brand-new sentinel (no interaction instant,
  no concrete timestamp) is published before every conversation with a concrete
  timestamp, so that A (last interaction 1000), B (last interaction 2000) and C (new)
  are published as C, B, A. The comparator replaces the sentinel by the instant 0 before
  it compares, so both of its operands are always instants (\<open>compareChats_eq\<close>) and the
  two branches that would put \<open>'Nuovo'\<close> first are never reached: the hook publishes
  B, A, C.
\<close>

theorem sentinel_conversation_published_last:
  "map (\<lambda>p. (p_id p, p_timestamp p, p_lastInteraction p))
     (chats (onNext ''me'' (\<lambda>i. Absent) [chatA, chatB, chatC] initialHook))
   = [(''B'', Instant 2000, Some 2000), (''A'', Instant 1000, Some 1000),
      (''C'', Label ''Nuovo'', None)]"
  by (simp add: onNext_def processSnapshot_def chatA_def chatB_def chatC_def initialHook_def
      groupPreview_def sort_by_def compareChats_def sortTime_def stamp_def)

text \<open>
  C5. In a pass that publishes a list, a one-to-one record whose counterpart profile is
  not resolved (no counterpart identifier, or the lookup returns no data) has no preview
  in the published list, the identifiers of the snapshot's records being distinct; and a
  one-to-one record whose profile is resolved has its preview in the published list.
  The lookup is an argument of the pass, so a later snapshot in which the profile has
  become resolvable is covered by the second part. A pass in which no lookup rejects
  always publishes (\<open>processSnapshot_total\<close>).
\<close>

theorem unresolved_counterpart_dropped:
  assumes "chat \<in> set docs" and "\<not> d_isGroup chat" and "distinct (map d_id docs)"
    and "processSnapshot uid getDoc docs = Inr L"
  shows "(resolvedProfile uid getDoc chat = None \<longrightarrow>
            d_id chat \<notin> p_id ` set (chats (onNext uid getDoc docs s)))
       \<and> (\<forall>user. resolvedProfile uid getDoc chat = Some user \<longrightarrow>
            directPreview uid chat user \<in> set (chats (onNext uid getDoc docs s)))"
proof -
  have pub: "chats (onNext uid getDoc docs s) = L"
    using assms(4) by (rule onNext_published)
  have setL: "set L = {p. \<exists>c \<in> set docs. previewOf uid getDoc c = Some p}"
    using assms(4) by (rule processSnapshot_set)
  have inj: "inj_on d_id (set docs)"
    using assms(3) by (simp add: distinct_map)
  have dropped: "d_id chat \<notin> p_id ` set L" if none: "resolvedProfile uid getDoc chat = None"
  proof
    assume "d_id chat \<in> p_id ` set L"
    then obtain p c where c: "c \<in> set docs" and p: "previewOf uid getDoc c = Some p"
      and same: "p_id p = d_id chat"
      using setL by auto
    from p have "p_id p = d_id c" by (rule previewOf_id)
    with same inj c assms(1) have "c = chat" by (auto dest: inj_onD)
    with p none assms(2) show False by (simp add: previewOf_def)
  qed
  have shown: "directPreview uid chat user \<in> set L"
    if some: "resolvedProfile uid getDoc chat = Some user" for user
  proof -
    have "previewOf uid getDoc chat = Some (directPreview uid chat user)"
      using some assms(2) by (simp add: previewOf_def)
    with assms(1) setL show ?thesis by blast
  qed
  from dropped shown pub show ?thesis by simp
qed

theorem unresolved_counterpart_dropped_witness:
  "d_id chatD \<notin> p_id ` set (chats (onNext ''me'' (\<lambda>i. Absent) [chatA, chatD] initialHook))
   \<and> directPreview ''me'' chatD bob
       \<in> set (chats (onNext ''me'' bobKnown [chatA, chatD] (onNext ''me'' (\<lambda>i. Absent) [chatA, chatD] initialHook)))"
proof -
  have mem: "chatD \<in> set [chatA, chatD]" by simp
  have one: "\<not> d_isGroup chatD" by (simp add: chatD_def)
  have ids: "distinct (map d_id [chatA, chatD])" by (simp add: chatA_def chatD_def)
  obtain L1 where p1: "processSnapshot ''me'' (\<lambda>i. Absent) [chatA, chatD] = Inr L1"
    using processSnapshot_total [of "\<lambda>i. Absent" "''me''" "[chatA, chatD]"] by auto
  have "bobKnown i \<noteq> Rejects err" for i err
    by (simp add: bobKnown_def)
  then obtain L2 where p2: "processSnapshot ''me'' bobKnown [chatA, chatD] = Inr L2"
    using processSnapshot_total [of bobKnown "''me''" "[chatA, chatD]"] by blast
  have r1: "resolvedProfile ''me'' (\<lambda>i. Absent) chatD = None"
    by (simp add: resolvedProfile_def counterpart_def chatD_def)
  have r2: "resolvedProfile ''me'' bobKnown chatD = Some bob"
    by (simp add: resolvedProfile_def counterpart_def chatD_def bobKnown_def)
  from unresolved_counterpart_dropped [OF mem one ids p1, of initialHook] r1
    unresolved_counterpart_dropped [OF mem one ids p2,
      of "onNext ''me'' (\<lambda>i. Absent) [chatA, chatD] initialHook"] r2
  show ?thesis by blast
qed

text \<open>
  C10. A transport error and a snapshot whose processing fails both leave the published
  list as it was: only the error indicator is set and the loading flag cleared. Whatever
  the snapshot, the list after \<open>next\<close> is either the previous list or the complete
  sorted result of the pass.
\<close>

theorem failed_pass_keeps_published_list:
  "onError s = s\<lparr> error := Some ''Errore nella sincronizzazione delle chat'', loading := False \<rparr>
   \<and> chats (onError s) = chats s
   \<and> (\<forall>err. processSnapshot uid getDoc docs = Inl err \<longrightarrow>
         onNext uid getDoc docs s = s\<lparr> error := Some ''Errore nel caricamento delle chat'', loading := False \<rparr>
         \<and> chats (onNext uid getDoc docs s) = chats s)
   \<and> (chats (onNext uid getDoc docs s) = chats s
        \<or> processSnapshot uid getDoc docs = Inr (chats (onNext uid getDoc docs s)))"
  by (auto simp: onError_def onNext_def split: sum.splits)

theorem failed_pass_keeps_published_list_witness:
  "processSnapshot ''me'' offline [chatA, chatD] = Inl (Exn ''unavailable'')
   \<and> chats (onNext ''me'' offline [chatA, chatD] (onNext ''me'' bobKnown [chatA, chatD] initialHook))
       = chats (onNext ''me'' bobKnown [chatA, chatD] initialHook)
   \<and> chats (onNext ''me'' bobKnown [chatA, chatD] initialHook) \<noteq> []"
proof -
  have f: "processSnapshot ''me'' offline [chatA, chatD] = Inl (Exn ''unavailable'')"
    by (simp add: processSnapshot_def chatA_def chatD_def offline_def)
  have n: "chats (onNext ''me'' bobKnown [chatA, chatD] initialHook) \<noteq> []"
    by (simp add: onNext_def processSnapshot_def chatA_def chatD_def bobKnown_def sort_by_def)
  from failed_pass_keeps_published_list
    [of "onNext ''me'' bobKnown [chatA, chatD] initialHook" "''me''" offline "[chatA, chatD]"] f n
  show ?thesis by blast
qed

text \<open>
  C8. The snippet truncation leaves a message of at most 10 code units unchanged and maps
  a longer one to its first 10 code units followed by an ellipsis of three dots; the
  15-character message "Hello there all" becomes "Hello ther..." and the 5-character
  message "Hello" is unchanged.
\<close>

theorem truncateMessage_spec:
  "truncateMessage_dflt m = (if length m \<le> 10 then m else take 10 m @ ''...'')
   \<and> truncateMessage_dflt ''Hello there all'' = ''Hello ther...''
   \<and> truncateMessage_dflt ''Hello'' = ''Hello''"
  by (simp add: truncateMessage_dflt_def truncateMessage_def)

section \<open>Properties of the dispatcher\<close>

subsection \<open>Preferences\<close>

lemma saveAll_snoc: "saveAll (upds @ [upd]) s = saveSettings upd (saveAll upds s)"
  by (simp add: saveAll_def)

lemma map_filter_snoc:
  "List.map_filter f (xs @ [x]) = List.map_filter f xs @ (case f x of None \<Rightarrow> [] | Some v \<Rightarrow> [v])"
  by (induction xs) (auto split: option.splits)

lemma latest_Nil: "latest key prior [] = prior"
  by (simp add: latest_def)

lemma latest_snoc:
  "latest key prior (upds @ [upd]) =
     (case key upd of None \<Rightarrow> latest key prior upds | Some v \<Rightarrow> v)"
  by (cases "List.map_filter key upds")
     (auto simp: latest_def map_filter_snoc split: option.splits list.splits)

lemma settings_saveAll:
  "settings (saveAll upds s) =
     \<lparr> sound = latest upd_sound (sound (settings s)) upds,
       vibration = latest upd_vibration (vibration (settings s)) upds,
       background = latest upd_background (background (settings s)) upds,
       preview = latest upd_preview (preview (settings s)) upds,
       messageSound = latest upd_messageSound (messageSound (settings s)) upds,
       callSound = latest upd_callSound (callSound (settings s)) upds \<rparr>"
proof (induction upds rule: rev_induct)
  case Nil
  show ?case by (simp add: saveAll_def latest_Nil)
next
  case (snoc upd upds)
  then show ?case
    by (simp add: saveAll_snoc latest_snoc saveSettings_def spread_def split: option.splits)
qed

lemma load_stringify: "loadSettings (Some (stringify p)) = p"
  by (simp add: loadSettings_def stringify_def spread_def)

text \<open>
  C9. After any sequence of \<open>saveSettings\<close> calls from a fully populated preferences
  value, each key holds the value of the most recent update that mentions it (a key is
  mentioned when the partial object carries it with a value), or its prior value when no
  update mentions it; after each call the store holds the full merged object, and
  loading it back gives the preferences in memory. \<open>localStorage.setItem\<close> is taken
  to succeed.
\<close>

theorem saveSettings_latest_wins:
  "settings (saveAll upds s) =
     \<lparr> sound = latest upd_sound (sound (settings s)) upds,
       vibration = latest upd_vibration (vibration (settings s)) upds,
       background = latest upd_background (background (settings s)) upds,
       preview = latest upd_preview (preview (settings s)) upds,
       messageSound = latest upd_messageSound (messageSound (settings s)) upds,
       callSound = latest upd_callSound (callSound (settings s)) upds \<rparr>
   \<and> stored (saveAll (upds @ [upd]) s) = Some (stringify (settings (saveAll (upds @ [upd]) s)))
   \<and> loadSettings (stored (saveAll (upds @ [upd]) s)) = settings (saveAll (upds @ [upd]) s)"
proof -
  have st: "stored (saveAll (upds @ [upd]) s) = Some (stringify (settings (saveAll (upds @ [upd]) s)))"
    by (simp add: saveAll_snoc saveSettings_def)
  show ?thesis
    using settings_saveAll [of upds s] st by (simp add: load_stringify)
qed

subsection \<open>Handlers\<close>

lemma played_append: "played (xs @ ys) = played xs @ played ys"
  by (induction xs rule: played.induct) auto

lemma playNotificationSound_settles: "snd (playNotificationSound e s isCall) = None"
  by (simp add: playNotificationSound_def try_catch_def attempt_def split: option.splits)

lemma playNotificationSound_played:
  "played (fst (playNotificationSound e s isCall)) =
     [if isCall then (CallCue, callSound_src s) else (MessageCue, messageSound_src s)]"
  by (simp add: playNotificationSound_def try_catch_def attempt_def split: option.splits)

lemma played_and_then_playNotificationSound:
  "played (fst (and_then (playNotificationSound e s isCall) rest)) =
     (if isCall then (CallCue, callSound_src s) else (MessageCue, messageSound_src s))
       # played (fst rest)"
  using playNotificationSound_played [of e s isCall] playNotificationSound_settles [of e s isCall]
  by (simp add: and_then_def played_append)

text \<open>
  C6. With \<open>background = false\<close> in the preferences, a web event received while the
  document is hidden and a mobile event whose foreground flag is false make no call on
  any collaborator: no sound, no haptic pulse, no preview, and the handler returns.
\<close>

theorem background_gate_suppresses_all:
  assumes "\<not> background (settings s)"
  shows "(document_hidden e \<longrightarrow> handleNotification e s payload = ([], None))
       \<and> (\<not> mn_foreground notification \<longrightarrow> handleMobileNotification e s notification = ([], None))"
  using assms by (simp add: handleNotification_def handleMobileNotification_def no_effect_def)

text \<open>
  C7. For an event that passes the background gate, the sounds a handler asks to play
  are: with \<open>sound = true\<close>, exactly the call sound when the event's data type is
  \<open>'call'\<close> and exactly the message sound otherwise; with \<open>sound = false\<close>, none.
\<close>

theorem sound_gate_selects_cue:
  "(\<not> (\<not> background (settings s) \<and> document_hidden e) \<longrightarrow>
      played (fst (handleNotification e s payload)) =
        (if sound (settings s)
         then [if data_type (msg_data payload) = Some ''call''
               then (CallCue, callSound_src s) else (MessageCue, messageSound_src s)]
         else []))
   \<and> (\<not> (\<not> background (settings s) \<and> \<not> mn_foreground notification) \<longrightarrow>
      played (fst (handleMobileNotification e s notification)) =
        (if sound (settings s)
         then [if data_type (mn_data notification) = Some ''call''
               then (CallCue, callSound_src s) else (MessageCue, messageSound_src s)]
         else []))"
proof -
  have gates: "played (fst (and_then (if c then attempt HapticImpact r else no_effect) g)) = []"
    if "played (fst g) = []" for c r g
    using that by (simp add: and_then_def attempt_def no_effect_def split: option.splits)
  have web_preview: "played (fst
      (if preview (settings s) \<and> hasPermission s
       then (case (case msg_notification payload of None \<Rightarrow> (None, None) | Some n \<Rightarrow> n) of
               (title, body) \<Rightarrow>
                 if \<not> document_hidden e
                 then attempt (ScheduleLocal (mk title body)) (schedule_result e)
                 else attempt (SystemNotification (t title) (b body)) (notification_result e))
       else no_effect)) = []" for mk t b
    by (simp add: attempt_def no_effect_def split: prod.splits)
  have mob_preview: "played (fst (if preview (settings s) then attempt (ScheduleLocal n) (schedule_result e) else no_effect)) = []" for n
    by (simp add: attempt_def no_effect_def)
  have quiet_first: "played (fst (and_then no_effect g)) = played (fst g)" for g
    by (simp add: and_then_def no_effect_def)
  show ?thesis
    unfolding handleNotification_def handleMobileNotification_def
    by (simp add: played_and_then_playNotificationSound quiet_first gates web_preview mob_preview)
qed


theorem background_gate_suppresses_all_witness:
  "\<not> background (settings backgroundOff)
   \<and> handleNotification (quiet\<lparr> document_hidden := True \<rparr>) backgroundOff webPush = ([], None)
   \<and> handleMobileNotification (quiet\<lparr> document_hidden := True \<rparr>) backgroundOff
         (textPush\<lparr> mn_foreground := False \<rparr>) = ([], None)"
proof -
  have off: "\<not> background (settings backgroundOff)"
    by (simp add: backgroundOff_def)
  from background_gate_suppresses_all [OF off, of "quiet\<lparr> document_hidden := True \<rparr>" webPush
      "textPush\<lparr> mn_foreground := False \<rparr>"] off
  show ?thesis by simp
qed

theorem sound_gate_selects_cue_witness:
  "played (fst (handleNotification quiet allOn webPush)) = [(CallCue, ''/sounds/call.mp3'')]
   \<and> played (fst (handleMobileNotification quiet allOn textPush)) = [(MessageCue, ''/sounds/message.mp3'')]"
  using sound_gate_selects_cue [of allOn quiet webPush textPush]
  by (simp add: allOn_def construct_def loadSettings_def DEFAULT_SETTINGS_def quiet_def
      webPush_def textPush_def data_type_def)

text \<open>
  C2. The claim: a failure in one gate's side effect never keeps the remaining gates
  from being attempted. Only the sound gate catches its own failure
  (\<open>sound_failure_isolated\<close>). With every preference on and permission held, a haptic
  pulse that rejects ends both handlers after the sound and haptic gates: the preview is
  never scheduled and the handler's promise rejects with the haptic error.
\<close>

theorem haptic_failure_skips_preview:
  "handleMobileNotification hapticsBroken allOn textPush
     = ([PlaySound MessageCue ''/sounds/message.mp3'', HapticImpact],
        Some (Exn ''haptics unavailable''))
   \<and> handleNotification hapticsBroken allOn webPush
     = ([PlaySound CallCue ''/sounds/call.mp3'', HapticImpact],
        Some (Exn ''haptics unavailable''))"
  by (simp add: handleMobileNotification_def handleNotification_def hapticsBroken_def quiet_def
      allOn_def construct_def loadSettings_def DEFAULT_SETTINGS_def textPush_def webPush_def
      data_type_def playNotificationSound_def try_catch_def attempt_def and_then_def
      no_effect_def)

lemma sound_failure_isolated:
  "fst (handleMobileNotification (quiet\<lparr> play_result := Some (Exn ''blocked'') \<rparr>) allOn textPush)
     = [PlaySound MessageCue ''/sounds/message.mp3'',
        ConsoleError ''Error playing notification sound:'' (Exn ''blocked''),
        HapticImpact,
        ScheduleLocal \<lparr> ln_title = ''Bob'', ln_body = ''hi'', ln_id = 42,
          ln_sound = Some ''notification.wav'', ln_actionTypeId = [],
          ln_extra = Some [(''type'', ''message'')] \<rparr>]"
  by (simp add: handleMobileNotification_def quiet_def
      allOn_def construct_def loadSettings_def DEFAULT_SETTINGS_def textPush_def
      data_type_def playNotificationSound_def try_catch_def attempt_def and_then_def
      no_effect_def or_else_def)

text \<open>
  The paths of \<open>sendServiceMatchNotification\<close>: it never raises; when the scheduling
  step is skipped or succeeds, the \<open>'showNotification'\<close> event is dispatched with the
  title and body of the local notification and a navigation action keyed by the match
  identifier.
\<close>

lemma sendServiceMatchNotification_paths:
  "snd (sendServiceMatchNotification e s m) = None
   \<and> (\<not> (preview (settings s) \<and> hasPermission s) \<longrightarrow>
        fst (sendServiceMatchNotification e s m) = [DispatchUi (match_event m)])
   \<and> (preview (settings s) \<and> hasPermission s \<and> schedule_result e = None \<longrightarrow>
        fst (sendServiceMatchNotification e s m)
          = [ScheduleLocal (match_local e s m), DispatchUi (match_event m)])
   \<and> (\<forall>err. preview (settings s) \<and> hasPermission s \<and> schedule_result e = Some err \<longrightarrow>
        fst (sendServiceMatchNotification e s m)
          = [ScheduleLocal (match_local e s m),
             ConsoleError ''Error sending service match notification:'' err])
   \<and> ev_title (match_event m) = ln_title (match_local e s m)
   \<and> ev_message (match_event m) = ln_body (match_local e s m)
   \<and> ev_action_target (match_event m) = ''/services/matches/'' @ match_id m"
  by (auto simp: sendServiceMatchNotification_def match_local_def match_event_def
      try_catch_def attempt_def and_then_def no_effect_def split: option.splits)

text \<open>
  C3. The claim: \<open>sendServiceMatchNotification\<close> never raises, and even when the
  scheduling collaborator throws, the \<open>'showNotification'\<close> event is still dispatched.
  The method does not raise, and the dispatch stands outside the preview and permission
  test, so every path on which scheduling is skipped or succeeds emits the event
  (\<open>sendServiceMatchNotification_paths\<close>). But the dispatch shares the \<open>try\<close> block
  with the awaited scheduling call: with preview on and permission held, a scheduling
  call that rejects is followed by the console log alone, and the event is never
  dispatched.
\<close>

theorem scheduling_failure_drops_ui_event:
  "sendServiceMatchNotification schedulerBroken allOn someMatch
     = ([ScheduleLocal (match_local schedulerBroken allOn someMatch),
         ConsoleError ''Error sending service match notification:'' (Exn ''scheduler down'')],
        None)
   \<and> DispatchUi (match_event someMatch)
       \<notin> set (fst (sendServiceMatchNotification schedulerBroken allOn someMatch))
   \<and> sendServiceMatchNotification quiet allOn someMatch
     = ([ScheduleLocal (match_local quiet allOn someMatch), DispatchUi (match_event someMatch)],
        None)"
  by (simp add: sendServiceMatchNotification_def schedulerBroken_def quiet_def match_local_def
      allOn_def construct_def loadSettings_def DEFAULT_SETTINGS_def
      try_catch_def attempt_def and_then_def no_effect_def)

subsection \<open>Initialisation\<close>




















end
